theory Spec2Isabelle
  imports Complex_Main "HOL-Library.Sublist"
begin

section \<open>MCS-Agent: the chat pass-through service\<close>

text \<open>
  A shallow embedding of \<^verbatim>\<open>app/utils/logger.py\<close>, \<^verbatim>\<open>app/utils/exceptions.py\<close>,
  \<^verbatim>\<open>app/services/chat_model.py\<close>, \<^verbatim>\<open>app/routers/chat.py\<close> and \<^verbatim>\<open>app/main.py\<close>.
  A Python \<^verbatim>\<open>str\<close> is a \<^typ>\<open>string\<close>, one \<^typ>\<open>char\<close> for each character of
  the Python string, so that \<^const>\<open>length\<close> is Python's \<^verbatim>\<open>len\<close>. What a function
  raises is the \<open>Inl\<close> side of its result; what it logs and what it sends upstream is the
  list of effects it returns, in the order they happen.
\<close>

subsection \<open>Log value truncation (\<^verbatim>\<open>app/utils/logger.py\<close>)\<close>

text \<open>
  \<^verbatim>\<open>_truncate_value\<close> looks at its argument in three ways only: whether it is a
  \<^verbatim>\<open>str\<close>, whether it is a \<^verbatim>\<open>dict\<close> or a \<^verbatim>\<open>list\<close>, and what
  \<^verbatim>\<open>json.dumps(value, separators=(",", ":"), default=str)\<close> and \<^verbatim>\<open>str(value)\<close>
  give. A value is modelled by these observations:
  \<^item> \<open>PyStr s\<close> is the string \<open>s\<close>;
  \<^item> \<open>PyContainer dumps s\<close> is a dict or a list whose \<^verbatim>\<open>json.dumps\<close> gives
    \<open>dumps\<close> (\<open>None\<close> when it raises) and whose \<^verbatim>\<open>str\<close> is \<open>s\<close>;
  \<^item> \<open>PyOther s\<close> is any other object, whose \<^verbatim>\<open>str\<close> is \<open>s\<close>.
\<close>

datatype pyvalue =
    PyStr string
  | PyContainer "string option" string
  | PyOther string

text \<open>The variable \<^verbatim>\<open>result\<close> after the \<^verbatim>\<open>if\<close>/\<^verbatim>\<open>elif\<close>/\<^verbatim>\<open>else\<close> of lines 37 to 45.\<close>

fun rendering :: "pyvalue \<Rightarrow> string" where
  "rendering (PyStr s) = s"
| "rendering (PyContainer dumps s) = (case dumps of Some j \<Rightarrow> j | None \<Rightarrow> s)"
| "rendering (PyOther s) = s"

text \<open>
  The slice \<^verbatim>\<open>xs[:k]\<close>: a negative \<open>k\<close> counts from the end, and a stop beyond either
  end of the list is clipped.
\<close>

definition py_slice_to :: "'a list \<Rightarrow> int \<Rightarrow> 'a list" where
  "py_slice_to xs k =
     (if k < 0 then take (nat (int (length xs) + k)) xs else take (nat k) xs)"

definition default_max_len :: int where
  "default_max_len = 100"

definition truncate_value :: "pyvalue \<Rightarrow> int \<Rightarrow> string" where
  "truncate_value v max_len =
     (let result = rendering v
      in if int (length result) > max_len
         then py_slice_to result (max_len - 3) @ ''...''
         else result)"

subsection \<open>Exceptions (\<^verbatim>\<open>app/utils/exceptions.py\<close>)\<close>

text \<open>
  What the code under the handler can raise. \<open>ChatModelError message\<close> is the domain
  error. \<open>Exception cls text\<close> is an instance of any other subclass of Python's
  \<^verbatim>\<open>Exception\<close>, of class name \<open>cls\<close> and string rendering \<open>text\<close>.
  \<open>BaseException cls text\<close> is a raised object outside \<^verbatim>\<open>Exception\<close>
  (\<^verbatim>\<open>KeyboardInterrupt\<close>, \<^verbatim>\<open>asyncio.CancelledError\<close>), which an
  \<^verbatim>\<open>except Exception\<close> clause does not catch.
\<close>

datatype exn =
    ChatModelError string
  | Exception string string
  | BaseException string string

text \<open>\<^verbatim>\<open>type(e).__name__\<close>\<close>

fun type_name :: "exn \<Rightarrow> string" where
  "type_name (ChatModelError message) = ''ChatModelError''"
| "type_name (Exception cls text) = cls"
| "type_name (BaseException cls text) = cls"

text \<open>\<^verbatim>\<open>str(e)\<close>; \<^verbatim>\<open>ChatModelError.__str__\<close> returns the message.\<close>

fun str_exn :: "exn \<Rightarrow> string" where
  "str_exn (ChatModelError message) = message"
| "str_exn (Exception cls text) = text"
| "str_exn (BaseException cls text) = text"

text \<open>\<^verbatim>\<open>isinstance(e, Exception)\<close>: what \<^verbatim>\<open>except Exception\<close> catches.\<close>

fun is_Exception :: "exn \<Rightarrow> bool" where
  "is_Exception (ChatModelError message) = True"
| "is_Exception (Exception cls text) = True"
| "is_Exception (BaseException cls text) = False"

subsection \<open>Hyperparameters (\<^verbatim>\<open>app/services/chat_model.py\<close>, lines 13 to 24)\<close>

text \<open>
  A Python \<^verbatim>\<open>float\<close> is a finite binary fraction, an infinity or a NaN. Comparison
  with a bound is exact on floats, so a finite float is modelled by the rational it denotes.
\<close>

datatype pyfloat = Finite rat | PosInf | NegInf | NaN

fun float_ge :: "pyfloat \<Rightarrow> rat \<Rightarrow> bool" where
  "float_ge (Finite x) b = (b \<le> x)"
| "float_ge PosInf b = True"
| "float_ge NegInf b = False"
| "float_ge NaN b = False"

fun float_le :: "pyfloat \<Rightarrow> rat \<Rightarrow> bool" where
  "float_le (Finite x) b = (x \<le> b)"
| "float_le PosInf b = False"
| "float_le NegInf b = True"
| "float_le NaN b = False"

text \<open>
  The fields are named as in the source, but for \<^verbatim>\<open>n\<close>, \<^verbatim>\<open>stop\<close> and
  \<^verbatim>\<open>stream\<close>, which would capture the variables of those names.
\<close>

record ChatModelHyperparams =
  temperature :: pyfloat
  max_tokens :: int
  top_p :: pyfloat
  frequency_penalty :: pyfloat
  presence_penalty :: pyfloat
  hp_n :: int
  hp_stop :: "string list"
  hp_stream :: bool
  logprobs :: "int option"

text \<open>
  The keyword arguments of \<^verbatim>\<open>ChatModelHyperparams(...)\<close>: every field may be left
  out (\<open>None\<close>), and then takes its default. For \<^verbatim>\<open>logprobs\<close>, leaving it out and
  passing \<^verbatim>\<open>None\<close> are the same.
\<close>

record raw_ChatModelHyperparams =
  raw_temperature :: "pyfloat option"
  raw_max_tokens :: "int option"
  raw_top_p :: "pyfloat option"
  raw_frequency_penalty :: "pyfloat option"
  raw_presence_penalty :: "pyfloat option"
  raw_n :: "int option"
  raw_stop :: "string list option"
  raw_stream :: "bool option"
  raw_logprobs :: "int option"

text \<open>
  One entry of a pydantic validation error: the name of the field and the input that was
  rejected, which the error carries with it. \<open>JOther fin\<close> is a rejected input that
  is not a number, \<open>fin\<close> telling whether all the numbers inside it are finite.
\<close>

datatype json_input = JFloat pyfloat | JInt int | JOther bool

type_synonym validation_error = "string \<times> json_input"

text \<open>
  \<^verbatim>\<open>Field(ge=lo, le=hi)\<close> on a supplied value: the fields that break a constraint are
  collected, as pydantic collects its errors. Defaults are not validated.
\<close>

definition Field_float ::
    "string \<Rightarrow> rat \<Rightarrow> rat \<Rightarrow> pyfloat option \<Rightarrow> validation_error list" where
  "Field_float name lo hi supplied =
     (case supplied of
        None \<Rightarrow> []
      | Some v \<Rightarrow> if float_ge v lo \<and> float_le v hi then [] else [(name, JFloat v)])"

definition Field_int ::
    "string \<Rightarrow> int \<Rightarrow> int \<Rightarrow> int option \<Rightarrow> validation_error list" where
  "Field_int name lo hi supplied =
     (case supplied of
        None \<Rightarrow> []
      | Some v \<Rightarrow> if lo \<le> v \<and> v \<le> hi then [] else [(name, JInt v)])"

definition or_default :: "'a option \<Rightarrow> 'a \<Rightarrow> 'a" where
  "or_default supplied d = (case supplied of None \<Rightarrow> d | Some v \<Rightarrow> v)"

text \<open>The double nearest to 0.7, the default of \<^verbatim>\<open>temperature\<close>.\<close>

definition float_0_7 :: pyfloat where
  "float_0_7 = Finite (3152519739159347 / 4503599627370496)"

definition ChatModelHyperparams_validate ::
    "raw_ChatModelHyperparams \<Rightarrow> validation_error list + ChatModelHyperparams" where
  "ChatModelHyperparams_validate raw =
     (let errors =
            Field_float ''temperature'' 0 1 (raw_temperature raw)
          @ Field_int ''max_tokens'' 1 8192 (raw_max_tokens raw)
          @ Field_float ''top_p'' 0 1 (raw_top_p raw)
          @ Field_float ''frequency_penalty'' 0 1 (raw_frequency_penalty raw)
          @ Field_float ''presence_penalty'' 0 1 (raw_presence_penalty raw)
          @ Field_int ''n'' 1 10 (raw_n raw)
          @ Field_int ''logprobs'' 0 10 (raw_logprobs raw)
      in if errors = []
         then Inr \<lparr> temperature = or_default (raw_temperature raw) float_0_7,
                    max_tokens = or_default (raw_max_tokens raw) 1000,
                    top_p = or_default (raw_top_p raw) (Finite 1),
                    frequency_penalty = or_default (raw_frequency_penalty raw) (Finite 0),
                    presence_penalty = or_default (raw_presence_penalty raw) (Finite 0),
                    hp_n = or_default (raw_n raw) 1,
                    hp_stop = or_default (raw_stop raw) [],
                    hp_stream = or_default (raw_stream raw) False,
                    logprobs = raw_logprobs raw \<rparr>
         else Inl errors)"

text \<open>The values of the named options of the upstream call.\<close>

datatype optval = OFloat pyfloat | OInt int | OStrs "string list" | OBool bool | ONone

text \<open>\<^verbatim>\<open>hyperparams.model_dump()\<close>: the dict of all fields, in declaration order.\<close>

definition model_dump :: "ChatModelHyperparams \<Rightarrow> (string \<times> optval) list" where
  "model_dump hp =
     [(''temperature'', OFloat (temperature hp)),
      (''max_tokens'', OInt (max_tokens hp)),
      (''top_p'', OFloat (top_p hp)),
      (''frequency_penalty'', OFloat (frequency_penalty hp)),
      (''presence_penalty'', OFloat (presence_penalty hp)),
      (''n'', OInt (hp_n hp)),
      (''stop'', OStrs (hp_stop hp)),
      (''stream'', OBool (hp_stream hp)),
      (''logprobs'', (case logprobs hp of None \<Rightarrow> ONone | Some k \<Rightarrow> OInt k))]"

text \<open>
  The bounds as the specification words them: each supplied field lies in its interval,
  \<^verbatim>\<open>logprobs\<close> may be absent.
\<close>

definition in_interval_float :: "rat \<Rightarrow> rat \<Rightarrow> pyfloat option \<Rightarrow> bool" where
  "in_interval_float lo hi supplied =
     (case supplied of
        None \<Rightarrow> True
      | Some (Finite x) \<Rightarrow> lo \<le> x \<and> x \<le> hi
      | Some _ \<Rightarrow> False)"

definition in_interval_int :: "int \<Rightarrow> int \<Rightarrow> int option \<Rightarrow> bool" where
  "in_interval_int lo hi supplied =
     (case supplied of None \<Rightarrow> True | Some k \<Rightarrow> lo \<le> k \<and> k \<le> hi)"

definition within_declared_bounds :: "raw_ChatModelHyperparams \<Rightarrow> bool" where
  "within_declared_bounds raw =
     (in_interval_float 0 1 (raw_temperature raw)
      \<and> in_interval_int 1 8192 (raw_max_tokens raw)
      \<and> in_interval_float 0 1 (raw_top_p raw)
      \<and> in_interval_float 0 1 (raw_frequency_penalty raw)
      \<and> in_interval_float 0 1 (raw_presence_penalty raw)
      \<and> in_interval_int 1 10 (raw_n raw)
      \<and> in_interval_int 0 10 (raw_logprobs raw))"

subsection \<open>The upstream API and its responses\<close>

datatype ChatCompletionMessageParam = MessageParam string string

record ChatCompletionMessage =
  message_role :: string
  message_content :: "string option"

record Choice =
  finish_reason :: string
  choice_index :: int
  choice_message :: ChatCompletionMessage

record CompletionUsage =
  completion_tokens :: int
  prompt_tokens :: int
  total_tokens :: int

record ChatCompletion =
  completion_model :: string
  completion_choices :: "Choice list"
  completion_usage :: "CompletionUsage option"

text \<open>The arguments of one \<^verbatim>\<open>chat.completions.create\<close> call.\<close>

record create_call =
  call_model :: string
  call_messages :: "ChatCompletionMessageParam list"
  call_kwargs :: "(string \<times> optval) list"

text \<open>
  The OpenAI client library is outside the repository: \<open>AsyncOpenAI base_url api_key\<close>
  says whether constructing the client raises, \<open>completions_create call\<close> is what the
  awaited call returns or raises.
\<close>

record upstream =
  AsyncOpenAI :: "string \<Rightarrow> string \<Rightarrow> exn option"
  completions_create :: "create_call \<Rightarrow> exn + ChatCompletion"

text \<open>
  The settings object of \<^verbatim>\<open>app/utils/config.py\<close>, of which the service reads
  three fields; \<open>llm_api_key\<close> is the secret's value.
\<close>

record Config =
  llm_base_url :: string
  llm_api_key :: string
  llm_name :: string

subsection \<open>Effects\<close>

datatype level = DEBUG | INFO | WARNING | ERROR | CRITICAL

datatype logval =
    LNone
  | LStr string
  | LInt int
  | LBool bool
  | LStrs "string list"
  | LKwargs "(string \<times> optval) list"
  | LCompletion ChatCompletion
  | LUsage CompletionUsage

text \<open>
  \<open>Log lvl message extra\<close> is one call of the logger wrapper; \<open>Create call\<close> is one
  completion call sent upstream.
\<close>

datatype effect =
    Log level string "(string \<times> logval) list"
  | Create create_call

fun is_error_log :: "effect \<Rightarrow> bool" where
  "is_error_log (Log lvl message extra) = (lvl = ERROR \<or> lvl = CRITICAL)"
| "is_error_log (Create call) = False"

fun create_calls :: "effect list \<Rightarrow> create_call list" where
  "create_calls [] = []"
| "create_calls (Create call # es) = call # create_calls es"
| "create_calls (Log lvl message extra # es) = create_calls es"

subsection \<open>The upstream client adapter (\<^verbatim>\<open>ChatModelService\<close>)\<close>

record ChatModelService =
  self_config :: Config
  self_llm_base_url :: string
  self_llm_api_key :: string
  self_llm_name :: string
  self_hyperparams :: "ChatModelHyperparams option"

text \<open>\<^verbatim>\<open>not model_name\<close>: true of \<^verbatim>\<open>None\<close> and of the empty string.\<close>

fun py_not :: "string option \<Rightarrow> bool" where
  "py_not None = True"
| "py_not (Some s) = (s = [])"

text \<open>
  An instance of a pydantic model is always true in a condition, so
  \<^verbatim>\<open>x.model_dump() if x else d\<close> takes \<open>d\<close> for \<^verbatim>\<open>None\<close> only.
\<close>

definition ChatModelService_init ::
    "upstream \<Rightarrow> Config \<Rightarrow> ChatModelHyperparams option \<Rightarrow> string option
       \<Rightarrow> (exn + ChatModelService) \<times> effect list" where
  "ChatModelService_init up config hp model_name =
     (let self = \<lparr> self_config = config,
                   self_llm_base_url = llm_base_url config,
                   self_llm_api_key = llm_api_key config,
                   self_llm_name =
                     (if py_not model_name then llm_name config else the model_name),
                   self_hyperparams = hp \<rparr>
      in case AsyncOpenAI up (self_llm_base_url self) (self_llm_api_key self) of
           Some e \<Rightarrow> (Inl e, [])
         | None \<Rightarrow>
             (Inr self,
              [Log INFO ''Initialized ChatModelService''
                 [(''model_name'', LStr (self_llm_name self)),
                  (''base_url'', LStr (self_llm_base_url self)),
                  (''hyperparams'',
                     (case self_hyperparams self of
                        None \<Rightarrow> LNone
                      | Some h \<Rightarrow> LKwargs (model_dump h)))]]))"

text \<open>The arguments of the call of lines 71 to 75.\<close>

definition create_args ::
    "ChatModelService \<Rightarrow> ChatCompletionMessageParam list \<Rightarrow> create_call" where
  "create_args self msgs =
     \<lparr> call_model = self_llm_name self,
       call_messages = msgs,
       call_kwargs = (case self_hyperparams self of None \<Rightarrow> [] | Some h \<Rightarrow> model_dump h) \<rparr>"

definition ChatModelService_chat ::
    "upstream \<Rightarrow> ChatModelService \<Rightarrow> ChatCompletionMessageParam list
       \<Rightarrow> (exn + ChatCompletion) \<times> effect list" where
  "ChatModelService_chat up self msgs =
     (let initiating =
            Log DEBUG ''Initiating chat completion''
              [(''model'', LStr (self_llm_name self)),
               (''message_count'', LInt (int (length msgs))),
               (''hyperparams'',
                  LKwargs (case self_hyperparams self of
                             None \<Rightarrow> []
                           | Some h \<Rightarrow> model_dump h))];
          call = create_args self msgs
      in case completions_create up call of
           Inr completion \<Rightarrow>
             (Inr completion,
              [initiating, Create call,
               Log DEBUG ''Chat completion received''
                 [(''completion'', LCompletion completion)],
               Log INFO ''Chat completion successful''
                 [(''model'', LStr (completion_model completion)),
                  (''num_choices'', LInt (int (length (completion_choices completion)))),
                  (''finish_reasons'',
                     LStrs (map finish_reason (completion_choices completion))),
                  (''usage'',
                     (case completion_usage completion of
                        None \<Rightarrow> LNone
                      | Some u \<Rightarrow> LUsage u))]])
         | Inl e \<Rightarrow>
             if is_Exception e
             then (Inl (ChatModelError (''Error chatting with model: '' @ str_exn e)),
                   [initiating, Create call,
                    Log ERROR ''Chat completion failed''
                      [(''model'', LStr (self_llm_name self)),
                       (''error_type'', LStr (type_name e)),
                       (''error_message'', LStr (str_exn e))]])
             else (Inl e, [initiating, Create call]))"

subsection \<open>The chat request handler (\<^verbatim>\<open>app/routers/chat.py\<close>)\<close>

record ChatRequest =
  messages :: "ChatCompletionMessageParam list"
  hyperparams :: "ChatModelHyperparams option"
  model_name :: "string option"

record ChatResponse =
  choices :: "Choice list"

text \<open>
  What leaves the handler when it does not return: the \<^verbatim>\<open>HTTPException\<close> it raises
  itself, or an exception it did not catch.
\<close>

datatype handler_raise = HTTPException nat string | Uncaught exn

definition received :: "ChatRequest \<Rightarrow> effect" where
  "received request =
     Log INFO ''Received chat request''
       [(''message_count'', LInt (int (length (messages request)))),
        (''model_name'', (case model_name request of None \<Rightarrow> LNone | Some s \<Rightarrow> LStr s)),
        (''has_hyperparams'', LBool (hyperparams request \<noteq> None))]"

text \<open>The body of the \<^verbatim>\<open>try\<close> statement, lines 42 to 55.\<close>

definition chat_try ::
    "upstream \<Rightarrow> Config \<Rightarrow> ChatRequest \<Rightarrow> (exn + ChatResponse) \<times> effect list" where
  "chat_try up config request =
     (case ChatModelService_init up config (hyperparams request) (model_name request) of
        (Inl e, es) \<Rightarrow> (Inl e, es)
      | (Inr service, es) \<Rightarrow>
          (case ChatModelService_chat up service (messages request) of
             (Inl e, es') \<Rightarrow> (Inl e, es @ es')
           | (Inr completion, es') \<Rightarrow>
               (Inr \<lparr> choices = completion_choices completion \<rparr>,
                es @ es' @
                [Log INFO ''Chat request completed successfully''
                   [(''num_choices'', LInt (int (length (completion_choices completion)))),
                    (''model_used'', LStr (completion_model completion))]])))"

text \<open>The handler: the first log call, the \<^verbatim>\<open>try\<close> body and its one \<^verbatim>\<open>except\<close> clause.\<close>

definition chat ::
    "upstream \<Rightarrow> Config \<Rightarrow> ChatRequest \<Rightarrow> (handler_raise + ChatResponse) \<times> effect list" where
  "chat up config request =
     (case chat_try up config request of
        (Inr response, es) \<Rightarrow> (Inr response, received request # es)
      | (Inl (ChatModelError message), es) \<Rightarrow>
          (let e = ChatModelError message
           in (Inl (HTTPException 500 (str_exn e)),
               received request # es @
               [Log ERROR ''Chat request failed''
                  [(''error_type'', LStr (type_name e)),
                   (''error_detail'', LStr (str_exn e)),
                   (''model_name'',
                      (case model_name request of None \<Rightarrow> LNone | Some s \<Rightarrow> LStr s))]]))
      | (Inl e, es) \<Rightarrow> (Inl (Uncaught e), received request # es))"

subsection \<open>The application shell (\<^verbatim>\<open>app/main.py\<close>) and the framework around the handler\<close>

datatype body =
    JsonChoices "Choice list"
  | JsonDetail string
  | JsonValidation "validation_error list"
  | JsonDict "(string \<times> string) list"
  | PlainText string

type_synonym http_response = "nat \<times> body"

text \<open>
  One element of the \<^verbatim>\<open>messages\<close> array of a request body, as the validation of
  \<^verbatim>\<open>ChatCompletionMessageParam\<close> sees it: \<open>Message m\<close> is an element it accepts as
  the message \<open>m\<close>; \<open>Malformed fin\<close> is an element it rejects, \<open>fin\<close> telling
  whether all the numbers inside the element are finite.
\<close>

datatype raw_message = Message ChatCompletionMessageParam | Malformed bool

record raw_ChatRequest =
  raw_messages :: "raw_message list"
  raw_hyperparams :: "raw_ChatModelHyperparams option"
  raw_model_name :: "string option"

fun message_errors :: "raw_message list \<Rightarrow> validation_error list" where
  "message_errors [] = []"
| "message_errors (Message m # ms) = message_errors ms"
| "message_errors (Malformed fin # ms) = (''messages'', JOther fin) # message_errors ms"

fun accepted_messages :: "raw_message list \<Rightarrow> ChatCompletionMessageParam list" where
  "accepted_messages [] = []"
| "accepted_messages (Message m # ms) = m # accepted_messages ms"
| "accepted_messages (Malformed fin # ms) = accepted_messages ms"

definition messages_validate ::
    "raw_message list \<Rightarrow> validation_error list + ChatCompletionMessageParam list" where
  "messages_validate ms =
     (if message_errors ms = [] then Inr (accepted_messages ms) else Inl (message_errors ms))"

text \<open>The field \<^verbatim>\<open>hyperparams: ChatModelHyperparams | None = None\<close>.\<close>

definition hyperparams_validate ::
    "raw_ChatModelHyperparams option
       \<Rightarrow> validation_error list + ChatModelHyperparams option" where
  "hyperparams_validate supplied =
     (case supplied of
        None \<Rightarrow> Inr None
      | Some rhp \<Rightarrow>
          (case ChatModelHyperparams_validate rhp of
             Inl errors \<Rightarrow> Inl errors
           | Inr hp \<Rightarrow> Inr (Some hp)))"

definition errors_of :: "validation_error list + 'a \<Rightarrow> validation_error list" where
  "errors_of r = (case r of Inl errors \<Rightarrow> errors | Inr v \<Rightarrow> [])"

text \<open>
  The framework builds the \<^verbatim>\<open>ChatRequest\<close> from the request body before the handler
  runs, and collects the errors of all its fields.
\<close>

definition ChatRequest_validate :: "raw_ChatRequest \<Rightarrow> validation_error list + ChatRequest" where
  "ChatRequest_validate raw =
     (case (messages_validate (raw_messages raw), hyperparams_validate (raw_hyperparams raw)) of
        (Inr ms, Inr hp) \<Rightarrow>
          Inr \<lparr> messages = ms, hyperparams = hp, model_name = raw_model_name raw \<rparr>
      | (m, h) \<Rightarrow> Inl (errors_of m @ errors_of h))"

text \<open>
  The JSON encoder of the response refuses a NaN and an infinity
  (\<^verbatim>\<open>allow_nan=False\<close>).
\<close>

fun renders_as_json :: "json_input \<Rightarrow> bool" where
  "renders_as_json (JFloat (Finite x)) = True"
| "renders_as_json (JFloat PosInf) = False"
| "renders_as_json (JFloat NegInf) = False"
| "renders_as_json (JFloat NaN) = False"
| "renders_as_json (JInt k) = True"
| "renders_as_json (JOther fin) = fin"

text \<open>
  The framework's answer to a body that fails validation: a 422 whose body lists the
  errors, each with its rejected input. When an input does not render as JSON, building
  that body raises, and the server's default handler answers instead.
\<close>

definition request_validation_response :: "validation_error list \<Rightarrow> http_response" where
  "request_validation_response errors =
     (if list_all (\<lambda>(field, input). renders_as_json input) errors
      then (422, JsonValidation errors)
      else (500, PlainText ''Internal Server Error''))"

text \<open>
  \<^verbatim>\<open>POST /chat/\<close>: a body that fails validation is answered by the framework and the
  handler does not run; a returned \<^verbatim>\<open>ChatResponse\<close> is the body of a 200; an
  \<^verbatim>\<open>HTTPException\<close> is answered with its status code and its detail; any other
  exception reaches the server's default handler.
\<close>

definition post_chat ::
    "upstream \<Rightarrow> Config \<Rightarrow> raw_ChatRequest \<Rightarrow> http_response \<times> effect list" where
  "post_chat up config raw =
     (case ChatRequest_validate raw of
        Inl errors \<Rightarrow> (request_validation_response errors, [])
      | Inr request \<Rightarrow>
          (case chat up config request of
             (Inr response, es) \<Rightarrow> ((200, JsonChoices (choices response)), es)
           | (Inl (HTTPException code detail), es) \<Rightarrow> ((code, JsonDetail detail), es)
           | (Inl (Uncaught e), es) \<Rightarrow> ((500, PlainText ''Internal Server Error''), es)))"

definition health_check :: "(string \<times> string) list" where
  "health_check = [(''status'', ''healthy''), (''service'', ''MCS-Agent'')]"

datatype http_request = GET string | POST string raw_ChatRequest

text \<open>
  The two routes the application registers; \<open>None\<close> is a request for which it
  registers no route, answered by the framework alone.
\<close>

definition app ::
    "upstream \<Rightarrow> Config \<Rightarrow> http_request \<Rightarrow> (http_response \<times> effect list) option" where
  "app up config req =
     (case req of
        GET path \<Rightarrow>
          if path = ''/'' then Some ((200, JsonDict health_check), []) else None
      | POST path raw \<Rightarrow>
          if path = ''/chat/'' then Some (post_chat up config raw) else None)"

subsection \<open>Stub upstreams and sample requests\<close>

text \<open>
  The stubs of the concrete scenarios: an upstream that returns a fixed completion, one
  whose completion call raises, and one whose client cannot be constructed.
\<close>

definition example_config :: Config where
  "example_config =
     \<lparr> llm_base_url = ''https://llm.example/v1'', llm_api_key = ''secret'',
       llm_name = ''default-model'' \<rparr>"

definition stub_returning :: "ChatCompletion \<Rightarrow> upstream" where
  "stub_returning completion =
     \<lparr> AsyncOpenAI = (\<lambda>base_url api_key. None),
       completions_create = (\<lambda>call. Inr completion) \<rparr>"

definition stub_raising :: "exn \<Rightarrow> upstream" where
  "stub_raising e =
     \<lparr> AsyncOpenAI = (\<lambda>base_url api_key. None),
       completions_create = (\<lambda>call. Inl e) \<rparr>"

definition stub_no_client :: "exn \<Rightarrow> upstream" where
  "stub_no_client e =
     \<lparr> AsyncOpenAI = (\<lambda>base_url api_key. Some e),
       completions_create = (\<lambda>call. Inl e) \<rparr>"

definition hello_completion :: ChatCompletion where
  "hello_completion =
     \<lparr> completion_model = ''default-model'',
       completion_choices =
         [\<lparr> finish_reason = ''stop'', choice_index = 0,
            choice_message =
              \<lparr> message_role = ''assistant'', message_content = Some ''hello'' \<rparr> \<rparr>],
       completion_usage = None \<rparr>"

definition hi_request :: "string option \<Rightarrow> ChatRequest" where
  "hi_request name =
     \<lparr> messages = [MessageParam ''user'' ''hi''], hyperparams = None, model_name = name \<rparr>"

definition hi_service :: "ChatModelHyperparams option \<Rightarrow> ChatModelService" where
  "hi_service hp =
     \<lparr> self_config = example_config, self_llm_base_url = ''https://llm.example/v1'',
       self_llm_api_key = ''secret'', self_llm_name = ''default-model'',
       self_hyperparams = hp \<rparr>"

definition raw_defaults :: raw_ChatModelHyperparams where
  "raw_defaults =
     \<lparr> raw_temperature = None, raw_max_tokens = None, raw_top_p = None,
       raw_frequency_penalty = None, raw_presence_penalty = None, raw_n = None,
       raw_stop = None, raw_stream = None, raw_logprobs = None \<rparr>"

definition default_hyperparams :: ChatModelHyperparams where
  "default_hyperparams =
     \<lparr> temperature = float_0_7, max_tokens = 1000, top_p = Finite 1,
       frequency_penalty = Finite 0, presence_penalty = Finite 0, hp_n = 1,
       hp_stop = [], hp_stream = False, logprobs = None \<rparr>"

definition hi_body :: "raw_ChatModelHyperparams option \<Rightarrow> raw_ChatRequest" where
  "hi_body rhp =
     \<lparr> raw_messages = [Message (MessageParam ''user'' ''hi'')], raw_hyperparams = rhp,
       raw_model_name = None \<rparr>"

section \<open>Properties\<close>

subsection \<open>Truncation\<close>

lemma py_slice_to_nonneg: "0 \<le> k \<Longrightarrow> py_slice_to xs k = take (nat k) xs"
  by (simp add: py_slice_to_def)

lemma truncate_value_default:
  "truncate_value v default_max_len =
     (if 100 < length (rendering v) then take 97 (rendering v) @ ''...'' else rendering v)"
  by (simp add: truncate_value_def default_max_len_def py_slice_to_nonneg Let_def)

lemma truncate_value_bounded:
  "3 \<le> max_len \<Longrightarrow> int (length (truncate_value v max_len)) \<le> max_len"
  by (auto simp: truncate_value_def Let_def py_slice_to_def)

text \<open>
  C8. With the default \<^verbatim>\<open>max_len\<close> of 100, which is how \<^verbatim>\<open>format_record\<close> calls
  it, \<^verbatim>\<open>_truncate_value\<close> returns at most 100 characters: the rendering of the value
  itself when that has at most 100 characters, and otherwise its first 97 characters
  followed by \<^verbatim>\<open>...\<close>.
\<close>

theorem truncate_value_at_most_100:
  "length (truncate_value v default_max_len) \<le> 100
   \<and> (length (rendering v) \<le> 100 \<longrightarrow> truncate_value v default_max_len = rendering v)
   \<and> (100 < length (rendering v) \<longrightarrow>
        truncate_value v default_max_len = take 97 (rendering v) @ ''...'')"
  by (simp add: truncate_value_default)

theorem truncate_value_at_most_100_witness:
  "truncate_value (PyStr ''healthy'') default_max_len = ''healthy''
   \<and> truncate_value (PyOther (replicate 150 (CHR ''x''))) default_max_len
       = replicate 97 (CHR ''x'') @ ''...''
   \<and> length (truncate_value (PyOther (replicate 150 (CHR ''x''))) default_max_len) = 100"
  using truncate_value_at_most_100 [of "PyStr ''healthy''"]
        truncate_value_at_most_100 [of "PyOther (replicate 150 (CHR ''x''))"]
  by simp

text \<open>
  C10. \<^verbatim>\<open>_truncate_value\<close> is idempotent: its output is a string of at most 100
  characters, and truncating that string again returns it unchanged.
\<close>

theorem truncate_value_idempotent:
  "truncate_value (PyStr (truncate_value v default_max_len)) default_max_len
     = truncate_value v default_max_len"
  by (simp add: truncate_value_default)

subsection \<open>The health route\<close>

text \<open>
  C7. \<^verbatim>\<open>GET /\<close> is answered with status 200 and the fixed payload, whatever the
  upstream API does and whatever the configuration is; it logs nothing and calls nothing.
\<close>

theorem health_check_fixed:
  "app up config (GET ''/'')
     = Some ((200, JsonDict [(''status'', ''healthy''), (''service'', ''MCS-Agent'')]), [])"
  by (simp add: app_def health_check_def)

subsection \<open>Constructing the service\<close>

lemma init_ok:
  "AsyncOpenAI up (llm_base_url config) (llm_api_key config) = None \<Longrightarrow>
   fst (ChatModelService_init up config hp name)
     = Inr \<lparr> self_config = config, self_llm_base_url = llm_base_url config,
             self_llm_api_key = llm_api_key config,
             self_llm_name = (if py_not name then llm_name config else the name),
             self_hyperparams = hp \<rparr>"
  by (simp add: ChatModelService_init_def Let_def)

lemma init_fields:
  "fst (ChatModelService_init up config hp name) = Inr self \<Longrightarrow>
   self_llm_name self = (if py_not name then llm_name config else the name)
   \<and> self_hyperparams self = hp
   \<and> create_calls (snd (ChatModelService_init up config hp name)) = []
   \<and> filter is_error_log (snd (ChatModelService_init up config hp name)) = []"
  by (auto simp: ChatModelService_init_def Let_def split: option.splits)

lemma init_cases:
  "(\<exists>e. ChatModelService_init up config hp name = (Inl e, []))
   \<or> (\<exists>self es. ChatModelService_init up config hp name = (Inr self, es)
        \<and> create_calls es = [] \<and> filter is_error_log es = [])"
  by (auto simp: ChatModelService_init_def Let_def split: option.splits)

lemma init_Inr_eq:
  assumes "fst (ChatModelService_init up config hp name) = Inr self"
  shows "\<exists>es. ChatModelService_init up config hp name = (Inr self, es)
              \<and> create_calls es = [] \<and> filter is_error_log es = []"
  using assms init_fields[OF assms]
  by (cases "ChatModelService_init up config hp name") auto

subsection \<open>The calls sent upstream\<close>

lemma create_calls_append: "create_calls (es @ es') = create_calls es @ create_calls es'"
  by (induction es rule: create_calls.induct) simp_all

lemma service_chat_calls:
  "create_calls (snd (ChatModelService_chat up self msgs)) = [create_args self msgs]"
  by (auto simp: ChatModelService_chat_def Let_def split: sum.splits)

lemma chat_try_calls:
  assumes "fst (ChatModelService_init up config (hyperparams request) (model_name request))
             = Inr self"
  shows "create_calls (snd (chat_try up config request))
           = [create_args self (messages request)]"
proof -
  obtain es where i: "ChatModelService_init up config (hyperparams request) (model_name request)
                        = (Inr self, es)"
              and c: "create_calls es = []"
    using init_Inr_eq[OF assms] by blast
  obtain r es' where s: "ChatModelService_chat up self (messages request) = (r, es')"
    by (metis prod.collapse)
  have c': "create_calls es' = [create_args self (messages request)]"
    using service_chat_calls[of up self "messages request"] s by simp
  show ?thesis
    by (cases r) (simp_all add: chat_try_def i s c c' create_calls_append)
qed

lemma chat_calls_eq_try:
  "create_calls (snd (chat up config request))
     = create_calls (snd (chat_try up config request))"
  by (auto simp: chat_def received_def create_calls_append Let_def
        split: prod.splits sum.splits exn.splits)

lemma chat_calls:
  assumes "fst (ChatModelService_init up config (hyperparams request) (model_name request))
             = Inr self"
  shows "create_calls (snd (chat up config request)) = [create_args self (messages request)]"
  using chat_try_calls[OF assms] by (simp add: chat_calls_eq_try)

text \<open>
  C2, as the code has it. When the request names a model and the name is not empty, the
  one completion call carries that name; when the request names none, the call carries
  the configured default. (The client is taken to be constructed: otherwise no call is
  made at all.)
\<close>

theorem model_name_override:
  assumes "AsyncOpenAI up (llm_base_url config) (llm_api_key config) = None"
  shows "(model_name request = Some name \<and> name \<noteq> [] \<longrightarrow>
            map call_model (create_calls (snd (chat up config request))) = [name])
       \<and> (model_name request = None \<longrightarrow>
            map call_model (create_calls (snd (chat up config request))) = [llm_name config])"
  using chat_calls[OF init_ok[OF assms], of request]
  by (auto simp: create_args_def)

theorem model_name_override_witness:
  "map call_model (create_calls (snd (chat (stub_returning hello_completion) example_config
        (hi_request (Some ''other-model''))))) = [''other-model'']
   \<and> map call_model (create_calls (snd (chat (stub_returning hello_completion) example_config
        (hi_request None)))) = [''default-model'']"
  using model_name_override [of "stub_returning hello_completion" example_config
          "hi_request (Some ''other-model'')" "''other-model''"]
        model_name_override [of "stub_returning hello_completion" example_config
          "hi_request None" "''other-model''"]
  by (simp add: stub_returning_def example_config_def hi_request_def)

text \<open>
  The claim as worded, for any string value, fails at the empty string: the request sets
  \<^verbatim>\<open>model_name\<close> to \<^verbatim>\<open>""\<close> and the call carries the configured default.
\<close>

theorem model_name_empty_counterexample:
  "model_name (hi_request (Some '''')) = Some ''''
   \<and> map call_model (create_calls (snd (chat (stub_returning hello_completion) example_config
        (hi_request (Some ''''))))) = [''default-model'']"
  by (simp add: hi_request_def stub_returning_def example_config_def chat_def chat_try_def
        ChatModelService_init_def ChatModelService_chat_def create_args_def Let_def received_def)

text \<open>
  C9. For a request whose \<^verbatim>\<open>model_name\<close> is the empty string, the service takes the
  configured default as its model name, and the completion call carries that default.
\<close>

theorem empty_model_name_uses_default:
  assumes "model_name request = Some ''''"
  shows "(\<forall>self. fst (ChatModelService_init up config (hyperparams request) (model_name request))
                   = Inr self \<longrightarrow> self_llm_name self = llm_name config)
       \<and> (AsyncOpenAI up (llm_base_url config) (llm_api_key config) = None \<longrightarrow>
            map call_model (create_calls (snd (chat up config request))) = [llm_name config])"
proof (intro conjI allI impI)
  fix self
  assume "fst (ChatModelService_init up config (hyperparams request) (model_name request))
            = Inr self"
  from init_fields[OF this] assms show "self_llm_name self = llm_name config" by simp
next
  assume ok: "AsyncOpenAI up (llm_base_url config) (llm_api_key config) = None"
  show "map call_model (create_calls (snd (chat up config request))) = [llm_name config]"
    using chat_calls[OF init_ok[OF ok], of request] assms by (simp add: create_args_def)
qed

theorem empty_model_name_uses_default_witness:
  "fst (ChatModelService_init (stub_returning hello_completion) example_config None (Some ''''))
     = Inr (hi_service None)
   \<and> self_llm_name (hi_service None) = ''default-model''
   \<and> map call_model (create_calls (snd (chat (stub_returning hello_completion) example_config
        (hi_request (Some ''''))))) = [''default-model'']"
  using empty_model_name_uses_default [of "hi_request (Some '''')"
          "stub_returning hello_completion" example_config]
  by (simp add: stub_returning_def example_config_def hi_request_def hi_service_def
        ChatModelService_init_def Let_def)

text \<open>
  C3. A service constructed without hyperparameters sends the model name and the messages
  and no option at all; a service constructed with a hyperparameter set sends the dump of
  that set, whose keys are the nine declared fields and no others.
\<close>

theorem chat_call_options:
  assumes "fst (ChatModelService_init up config hp name) = Inr self"
  shows "\<exists>kwargs.
           create_calls (snd (ChatModelService_chat up self msgs))
             = [\<lparr> call_model = self_llm_name self, call_messages = msgs,
                  call_kwargs = kwargs \<rparr>]
           \<and> (hp = None \<longrightarrow> kwargs = [])
           \<and> (\<forall>h. hp = Some h \<longrightarrow>
                kwargs = model_dump h
                \<and> map fst kwargs =
                    [''temperature'', ''max_tokens'', ''top_p'', ''frequency_penalty'',
                     ''presence_penalty'', ''n'', ''stop'', ''stream'', ''logprobs''])"
  using init_fields[OF assms] service_chat_calls[of up self msgs]
  by (auto simp: create_args_def model_dump_def)

theorem chat_call_options_witness:
  "fst (ChatModelService_init (stub_returning hello_completion) example_config None None)
     = Inr (hi_service None)
   \<and> map call_kwargs (create_calls (snd (ChatModelService_chat
        (stub_returning hello_completion) (hi_service None) [MessageParam ''user'' ''hi''])))
       = [[]]
   \<and> fst (ChatModelService_init (stub_returning hello_completion) example_config
        (Some default_hyperparams) None) = Inr (hi_service (Some default_hyperparams))
   \<and> map (map fst \<circ> call_kwargs) (create_calls (snd (ChatModelService_chat
        (stub_returning hello_completion) (hi_service (Some default_hyperparams))
        [MessageParam ''user'' ''hi''])))
       = [[''temperature'', ''max_tokens'', ''top_p'', ''frequency_penalty'',
           ''presence_penalty'', ''n'', ''stop'', ''stream'', ''logprobs'']]"
  using chat_call_options [of "stub_returning hello_completion" example_config None None
          "hi_service None" "[MessageParam ''user'' ''hi'']"]
        chat_call_options [of "stub_returning hello_completion" example_config
          "Some default_hyperparams" None "hi_service (Some default_hyperparams)"
          "[MessageParam ''user'' ''hi'']"]
  by (auto simp: ChatModelService_init_def Let_def stub_returning_def example_config_def
        hi_service_def)

subsection \<open>Validation of the hyperparameters\<close>

lemma Field_float_Nil:
  "Field_float name lo hi supplied = [] \<longleftrightarrow> in_interval_float lo hi supplied"
  by (auto simp: Field_float_def in_interval_float_def split: option.splits pyfloat.splits)

lemma Field_int_Nil:
  "Field_int name lo hi supplied = [] \<longleftrightarrow> in_interval_int lo hi supplied"
  by (auto simp: Field_int_def in_interval_int_def split: option.splits)

lemma validate_Inr_iff:
  "(\<exists>hp. ChatModelHyperparams_validate raw = Inr hp) \<longleftrightarrow> within_declared_bounds raw"
  by (simp add: ChatModelHyperparams_validate_def Let_def within_declared_bounds_def
        Field_float_Nil Field_int_Nil)

lemma validate_Inl_nonempty:
  "ChatModelHyperparams_validate raw = Inl errors \<Longrightarrow> errors \<noteq> []"
  by (auto simp: ChatModelHyperparams_validate_def Let_def split: if_splits)

lemma request_with_rejected_hyperparams:
  assumes "ChatModelHyperparams_validate rhp = Inl errors"
  shows "ChatRequest_validate
           \<lparr> raw_messages = msgs, raw_hyperparams = Some rhp, raw_model_name = name \<rparr>
         = Inl (message_errors msgs @ errors)"
  by (cases "message_errors msgs = []")
     (simp_all add: ChatRequest_validate_def messages_validate_def hyperparams_validate_def
        errors_of_def assms)

lemma request_validation_status:
  "fst (request_validation_response errors) = 422
   \<or> fst (request_validation_response errors) = 500"
  by (simp add: request_validation_response_def)

text \<open>
  A body with a malformed message is answered with 422 before the handler runs.
\<close>

lemma malformed_message_rejected:
  "post_chat up config
     \<lparr> raw_messages = [Message (MessageParam ''user'' ''hi''), Malformed True],
       raw_hyperparams = None, raw_model_name = None \<rparr>
   = ((422, JsonValidation [(''messages'', JOther True)]), [])"
  by (simp add: post_chat_def ChatRequest_validate_def messages_validate_def
        hyperparams_validate_def errors_of_def request_validation_response_def)

text \<open>
  C4. Constructing the hyperparameter set succeeds for every input whose supplied fields
  lie within the declared bounds, and fails for every input with a field outside its
  bound. A request that carries such a set is answered by the framework from the
  validation errors, with status 422 or, when a rejected value is a NaN or an infinity,
  500; the handler does not run, so nothing is logged by it and nothing is sent upstream.
\<close>

theorem hyperparams_validation:
  "(within_declared_bounds raw \<longrightarrow> (\<exists>hp. ChatModelHyperparams_validate raw = Inr hp))
   \<and> (\<not> within_declared_bounds raw \<longrightarrow>
        (\<exists>errors. errors \<noteq> [] \<and> ChatModelHyperparams_validate raw = Inl errors
           \<and> post_chat up config
                \<lparr> raw_messages = msgs, raw_hyperparams = Some raw, raw_model_name = name \<rparr>
               = (request_validation_response (message_errors msgs @ errors), [])
           \<and> (fst (request_validation_response (message_errors msgs @ errors)) = 422
                \<or> fst (request_validation_response (message_errors msgs @ errors)) = 500)))"
proof (intro conjI impI)
  assume "within_declared_bounds raw"
  then show "\<exists>hp. ChatModelHyperparams_validate raw = Inr hp"
    by (simp add: validate_Inr_iff)
next
  assume "\<not> within_declared_bounds raw"
  then have "\<nexists>hp. ChatModelHyperparams_validate raw = Inr hp"
    by (simp add: validate_Inr_iff)
  then obtain errors where e: "ChatModelHyperparams_validate raw = Inl errors"
    by (cases "ChatModelHyperparams_validate raw") auto
  have "post_chat up config
          \<lparr> raw_messages = msgs, raw_hyperparams = Some raw, raw_model_name = name \<rparr>
        = (request_validation_response (message_errors msgs @ errors), [])"
    by (simp add: post_chat_def request_with_rejected_hyperparams[OF e])
  with e validate_Inl_nonempty[OF e]
       request_validation_status[of "message_errors msgs @ errors"]
  show "\<exists>errors. errors \<noteq> [] \<and> ChatModelHyperparams_validate raw = Inl errors
           \<and> post_chat up config
                \<lparr> raw_messages = msgs, raw_hyperparams = Some raw, raw_model_name = name \<rparr>
               = (request_validation_response (message_errors msgs @ errors), [])
           \<and> (fst (request_validation_response (message_errors msgs @ errors)) = 422
                \<or> fst (request_validation_response (message_errors msgs @ errors)) = 500)"
    by blast
qed

theorem hyperparams_validation_witness:
  "within_declared_bounds
     (raw_defaults\<lparr> raw_temperature := Some (Finite (1 / 2)), raw_max_tokens := Some 8192 \<rparr>)
   \<and> ChatModelHyperparams_validate
        (raw_defaults\<lparr> raw_temperature := Some (Finite (1 / 2)), raw_max_tokens := Some 8192 \<rparr>)
       = Inr (default_hyperparams\<lparr> temperature := Finite (1 / 2), max_tokens := 8192 \<rparr>)
   \<and> \<not> within_declared_bounds (raw_defaults\<lparr> raw_temperature := Some (Finite (3 / 2)) \<rparr>)
   \<and> post_chat (stub_returning hello_completion) example_config
        (hi_body (Some (raw_defaults\<lparr> raw_temperature := Some (Finite (3 / 2)) \<rparr>)))
       = ((422, JsonValidation [(''temperature'', JFloat (Finite (3 / 2)))]), [])
   \<and> \<not> within_declared_bounds (raw_defaults\<lparr> raw_max_tokens := Some 0 \<rparr>)
   \<and> post_chat (stub_returning hello_completion) example_config
        (hi_body (Some (raw_defaults\<lparr> raw_max_tokens := Some 0 \<rparr>)))
       = ((422, JsonValidation [(''max_tokens'', JInt 0)]), [])
   \<and> \<not> within_declared_bounds (raw_defaults\<lparr> raw_top_p := Some NaN \<rparr>)
   \<and> post_chat (stub_returning hello_completion) example_config
        (hi_body (Some (raw_defaults\<lparr> raw_top_p := Some NaN \<rparr>)))
       = ((500, PlainText ''Internal Server Error''), [])"
proof -
  have a: "within_declared_bounds
     (raw_defaults\<lparr> raw_temperature := Some (Finite (1 / 2)), raw_max_tokens := Some 8192 \<rparr>)"
    by (simp add: within_declared_bounds_def raw_defaults_def in_interval_float_def
          in_interval_int_def)
  have b: "\<not> within_declared_bounds (raw_defaults\<lparr> raw_temperature := Some (Finite (3 / 2)) \<rparr>)"
    by (simp add: within_declared_bounds_def raw_defaults_def in_interval_float_def
          in_interval_int_def)
  have c: "\<not> within_declared_bounds (raw_defaults\<lparr> raw_max_tokens := Some 0 \<rparr>)"
    by (simp add: within_declared_bounds_def raw_defaults_def in_interval_float_def
          in_interval_int_def)
  have d: "\<not> within_declared_bounds (raw_defaults\<lparr> raw_top_p := Some NaN \<rparr>)"
    by (simp add: within_declared_bounds_def raw_defaults_def in_interval_float_def
          in_interval_int_def)
  show ?thesis
    using a b c d
      hyperparams_validation [of
        "raw_defaults\<lparr> raw_temperature := Some (Finite (1 / 2)), raw_max_tokens := Some 8192 \<rparr>"]
      hyperparams_validation [of "raw_defaults\<lparr> raw_temperature := Some (Finite (3 / 2)) \<rparr>"
        "stub_returning hello_completion" example_config
        "[Message (MessageParam ''user'' ''hi'')]" None]
      hyperparams_validation [of "raw_defaults\<lparr> raw_max_tokens := Some 0 \<rparr>"
        "stub_returning hello_completion" example_config
        "[Message (MessageParam ''user'' ''hi'')]" None]
      hyperparams_validation [of "raw_defaults\<lparr> raw_top_p := Some NaN \<rparr>"
        "stub_returning hello_completion" example_config
        "[Message (MessageParam ''user'' ''hi'')]" None]
    by (auto simp: hi_body_def ChatModelHyperparams_validate_def Let_def raw_defaults_def
          default_hyperparams_def Field_float_def Field_int_def or_default_def
          request_validation_response_def)
qed

subsection \<open>The success path\<close>

text \<open>
  C5. When the client is constructed and the completion call returns a completion, the
  handler returns the completion's choice list itself, and the response is a 200 whose
  choice list is that list: as many entries, in the same order, each unchanged.
\<close>

theorem choices_returned_verbatim:
  assumes "fst (ChatModelService_init up config (hyperparams request) (model_name request))
             = Inr self"
      and "completions_create up (create_args self (messages request)) = Inr completion"
  shows "fst (chat up config request) = Inr \<lparr> choices = completion_choices completion \<rparr>
       \<and> (\<forall>raw. ChatRequest_validate raw = Inr request \<longrightarrow>
             fst (post_chat up config raw)
               = (200, JsonChoices (completion_choices completion)))"
proof -
  obtain es where i: "ChatModelService_init up config (hyperparams request) (model_name request)
                        = (Inr self, es)"
    using init_Inr_eq[OF assms(1)] by blast
  have t: "fst (chat_try up config request) = Inr \<lparr> choices = completion_choices completion \<rparr>"
    by (simp add: chat_try_def i ChatModelService_chat_def Let_def assms(2))
  have c: "fst (chat up config request) = Inr \<lparr> choices = completion_choices completion \<rparr>"
    using t by (cases "chat_try up config request") (simp add: chat_def)
  show ?thesis
    using c by (cases "chat up config request") (simp add: post_chat_def)
qed

theorem choices_returned_verbatim_witness:
  "fst (ChatModelService_init (stub_returning hello_completion) example_config None None)
     = Inr (hi_service None)
   \<and> ChatRequest_validate (hi_body None) = Inr (hi_request None)
   \<and> fst (post_chat (stub_returning hello_completion) example_config (hi_body None))
     = (200, JsonChoices
          [\<lparr> finish_reason = ''stop'', choice_index = 0,
             choice_message =
               \<lparr> message_role = ''assistant'', message_content = Some ''hello'' \<rparr> \<rparr>])"
  using choices_returned_verbatim [of "stub_returning hello_completion" example_config
          "hi_request None" "hi_service None" hello_completion]
  by (simp add: ChatModelService_init_def Let_def stub_returning_def example_config_def
        hi_request_def hi_body_def hi_service_def ChatRequest_validate_def messages_validate_def
        hyperparams_validate_def hello_completion_def)

subsection \<open>The failure paths\<close>

lemma chat_upstream_failure:
  assumes "fst (ChatModelService_init up config (hyperparams request) (model_name request))
             = Inr self"
      and "completions_create up (create_args self (messages request)) = Inl e"
      and "is_Exception e"
  shows "fst (ChatModelService_chat up self (messages request))
           = Inl (ChatModelError (''Error chatting with model: '' @ str_exn e))
       \<and> fst (chat up config request)
           = Inl (HTTPException 500 (''Error chatting with model: '' @ str_exn e))"
proof -
  obtain es where i: "ChatModelService_init up config (hyperparams request) (model_name request)
                        = (Inr self, es)"
    using init_Inr_eq[OF assms(1)] by blast
  have s: "fst (ChatModelService_chat up self (messages request))
             = Inl (ChatModelError (''Error chatting with model: '' @ str_exn e))"
    by (simp add: ChatModelService_chat_def Let_def assms(2,3))
  have t: "fst (chat_try up config request)
             = Inl (ChatModelError (''Error chatting with model: '' @ str_exn e))"
    using s by (cases "ChatModelService_chat up self (messages request)")
      (simp add: chat_try_def i)
  have c: "fst (chat up config request)
             = Inl (HTTPException 500 (''Error chatting with model: '' @ str_exn e))"
    using t by (cases "chat_try up config request") (simp add: chat_def Let_def)
  from s c show ?thesis by (intro conjI)
qed

text \<open>
  C1, as the code has it. When the completion call raises an exception \<open>e\<close> (an instance
  of \<^verbatim>\<open>Exception\<close>, which is what the adapter's \<^verbatim>\<open>except\<close> clause catches), the
  adapter raises a \<^verbatim>\<open>ChatModelError\<close> whose message is
  \<^verbatim>\<open>Error chatting with model: \<close> followed by \<^verbatim>\<open>str(e)\<close>, and the handler answers
  with status 500 and exactly that message as the detail. The detail contains the
  original error text. It depends on \<open>e\<close> through \<^verbatim>\<open>str(e)\<close> alone: an exception of
  any other class with the same text, raised by the same call, gets the same answer.
\<close>

theorem upstream_failure_is_500:
  assumes "fst (ChatModelService_init up config (hyperparams request) (model_name request))
             = Inr self"
      and "completions_create up (create_args self (messages request)) = Inl e"
      and "is_Exception e"
  shows "fst (ChatModelService_chat up self (messages request))
           = Inl (ChatModelError (''Error chatting with model: '' @ str_exn e))
       \<and> fst (chat up config request)
           = Inl (HTTPException 500 (''Error chatting with model: '' @ str_exn e))
       \<and> (\<forall>raw. ChatRequest_validate raw = Inr request \<longrightarrow>
             fst (post_chat up config raw)
               = (500, JsonDetail (''Error chatting with model: '' @ str_exn e)))
       \<and> sublist (str_exn e) (''Error chatting with model: '' @ str_exn e)
       \<and> (\<forall>up' e'.
             fst (ChatModelService_init up' config (hyperparams request) (model_name request))
               = Inr self
             \<and> completions_create up' (create_args self (messages request)) = Inl e'
             \<and> is_Exception e' \<and> str_exn e' = str_exn e \<longrightarrow>
             fst (chat up' config request) = fst (chat up config request))"
proof -
  note sc = chat_upstream_failure[OF assms]
  have s: "fst (ChatModelService_chat up self (messages request))
             = Inl (ChatModelError (''Error chatting with model: '' @ str_exn e))"
    using sc by (rule conjunct1)
  have c: "fst (chat up config request)
             = Inl (HTTPException 500 (''Error chatting with model: '' @ str_exn e))"
    using sc by (rule conjunct2)
  have p: "\<forall>raw. ChatRequest_validate raw = Inr request \<longrightarrow>
             fst (post_chat up config raw)
               = (500, JsonDetail (''Error chatting with model: '' @ str_exn e))"
    using c by (cases "chat up config request") (simp add: post_chat_def)
  have b: "sublist (str_exn e) (''Error chatting with model: '' @ str_exn e)"
    by (rule sublist_append_leftI)
  have d: "\<forall>up' e'.
             fst (ChatModelService_init up' config (hyperparams request) (model_name request))
               = Inr self
             \<and> completions_create up' (create_args self (messages request)) = Inl e'
             \<and> is_Exception e' \<and> str_exn e' = str_exn e \<longrightarrow>
             fst (chat up' config request) = fst (chat up config request)"
  proof (intro allI impI)
    fix up' e'
    assume h: "fst (ChatModelService_init up' config (hyperparams request) (model_name request))
                 = Inr self
               \<and> completions_create up' (create_args self (messages request)) = Inl e'
               \<and> is_Exception e' \<and> str_exn e' = str_exn e"
    then have "fst (chat up' config request)
                 = Inl (HTTPException 500 (''Error chatting with model: '' @ str_exn e'))"
      using chat_upstream_failure[of up' config request self e'] by blast
    with h c show "fst (chat up' config request) = fst (chat up config request)"
      by simp
  qed
  from s c p b d show ?thesis by (intro conjI)
qed

theorem upstream_failure_is_500_witness:
  "fst (ChatModelService_init (stub_raising (Exception ''APIConnectionError'' ''Connection error.''))
          example_config None None) = Inr (hi_service None)
   \<and> is_Exception (Exception ''APIConnectionError'' ''Connection error.'')
   \<and> ChatRequest_validate (hi_body None) = Inr (hi_request None)
   \<and> fst (post_chat (stub_raising (Exception ''APIConnectionError'' ''Connection error.''))
          example_config (hi_body None))
     = (500, JsonDetail ''Error chatting with model: Connection error.'')
   \<and> fst (chat (stub_raising (Exception ''ConnectError'' ''Connection error.''))
          example_config (hi_request None))
     = fst (chat (stub_raising (Exception ''APIConnectionError'' ''Connection error.''))
          example_config (hi_request None))"
proof -
  have i: "fst (ChatModelService_init
                  (stub_raising (Exception ''APIConnectionError'' ''Connection error.''))
                  example_config (hyperparams (hi_request None)) (model_name (hi_request None)))
             = Inr (hi_service None)"
    by (simp add: ChatModelService_init_def Let_def stub_raising_def example_config_def
          hi_request_def hi_service_def)
  have i': "fst (ChatModelService_init
                  (stub_raising (Exception ''ConnectError'' ''Connection error.''))
                  example_config (hyperparams (hi_request None)) (model_name (hi_request None)))
             = Inr (hi_service None)"
    by (simp add: ChatModelService_init_def Let_def stub_raising_def example_config_def
          hi_request_def hi_service_def)
  have r: "completions_create
             (stub_raising (Exception ''APIConnectionError'' ''Connection error.''))
             (create_args (hi_service None) (messages (hi_request None)))
           = Inl (Exception ''APIConnectionError'' ''Connection error.'')"
    by (simp add: stub_raising_def)
  have r': "completions_create
             (stub_raising (Exception ''ConnectError'' ''Connection error.''))
             (create_args (hi_service None) (messages (hi_request None)))
           = Inl (Exception ''ConnectError'' ''Connection error.'')"
    by (simp add: stub_raising_def)
  have v: "ChatRequest_validate (hi_body None) = Inr (hi_request None)"
    by (simp add: ChatRequest_validate_def messages_validate_def hyperparams_validate_def
          hi_body_def hi_request_def)
  have x: "is_Exception (Exception ''APIConnectionError'' ''Connection error.'')"
    by simp
  show ?thesis
    using i i' r r' v x upstream_failure_is_500 [OF i r x]
    by (auto simp: hi_request_def)
qed

text \<open>
  The claim as worded also says that the detail never contains the class name of the
  exception. It does whenever the error text does: here the upstream raises a
  \<^verbatim>\<open>ValueError\<close> whose text names its own class.
\<close>

theorem error_detail_type_name_counterexample:
  "fst (post_chat (stub_raising (Exception ''ValueError'' ''ValueError: malformed response''))
          example_config (hi_body None))
     = (500, JsonDetail ''Error chatting with model: ValueError: malformed response'')
   \<and> sublist (type_name (Exception ''ValueError'' ''ValueError: malformed response''))
        ''Error chatting with model: ValueError: malformed response''"
proof -
  have "sublist ''ValueError''
          (''Error chatting with model: '' @ ''ValueError'' @ '': malformed response'')"
    by (rule sublist_appendI)
  then show ?thesis
    by (simp add: post_chat_def chat_def chat_try_def ChatModelService_init_def
        ChatModelService_chat_def create_args_def Let_def stub_raising_def example_config_def
        hi_body_def ChatRequest_validate_def messages_validate_def hyperparams_validate_def
        received_def)
qed

text \<open>
  A raised object outside \<^verbatim>\<open>Exception\<close>, such as a cancellation, passes through the
  adapter and the handler as it is.
\<close>

lemma base_exception_passes_through:
  "fst (chat (stub_raising (BaseException ''CancelledError'' '''')) example_config
          (hi_request None))
     = Inl (Uncaught (BaseException ''CancelledError'' ''''))"
  by (simp add: chat_def chat_try_def ChatModelService_init_def ChatModelService_chat_def
        Let_def stub_raising_def example_config_def hi_request_def)

lemma service_chat_raises:
  assumes "ChatModelService_chat up self msgs = (Inl e, es)"
  shows "(\<exists>message. e = ChatModelError message) \<or> filter is_error_log es = []"
  using assms
  by (auto simp: ChatModelService_chat_def Let_def split: sum.splits if_splits)

lemma chat_try_raises:
  assumes "chat_try up config request = (Inl e, es)"
  shows "(\<exists>message. e = ChatModelError message) \<or> filter is_error_log es = []"
proof (cases "ChatModelService_init up config (hyperparams request) (model_name request)")
  case (Pair r es0)
  show ?thesis
  proof (cases r)
    case (Inl e0)
    then show ?thesis
      using assms Pair init_cases[of up config "hyperparams request" "model_name request"]
      by (auto simp: chat_try_def)
  next
    case (Inr self)
    have f0: "filter is_error_log es0 = []"
      using Pair Inr init_cases[of up config "hyperparams request" "model_name request"]
      by auto
    obtain r1 es1 where s: "ChatModelService_chat up self (messages request) = (r1, es1)"
      by (metis prod.collapse)
    show ?thesis
    proof (cases r1)
      case (Inl e1)
      with assms Pair Inr s have "e = e1" "es = es0 @ es1"
        by (simp_all add: chat_try_def)
      with service_chat_raises[of up self "messages request" e1 es1] s Inl f0
      show ?thesis by auto
    next
      case (Inr completion)
      with assms Pair \<open>r = Inr self\<close> s show ?thesis
        by (simp add: chat_try_def)
    qed
  qed
qed

text \<open>
  C6. The handler's one \<^verbatim>\<open>except\<close> clause catches \<^verbatim>\<open>ChatModelError\<close> and turns
  it into a 500. Any other exception raised in the \<^verbatim>\<open>try\<close> body leaves the handler
  as it is, the handler adds no log entry for it, and no entry at error level has been
  logged on that path.
\<close>

theorem handler_catches_only_ChatModelError:
  assumes "chat_try up config request = (Inl e, es)"
  shows "(\<forall>message. e = ChatModelError message \<longrightarrow>
            fst (chat up config request) = Inl (HTTPException 500 message))
       \<and> ((\<forall>message. e \<noteq> ChatModelError message) \<longrightarrow>
            chat up config request = (Inl (Uncaught e), received request # es)
            \<and> filter is_error_log (snd (chat up config request)) = [])"
proof (intro conjI allI impI)
  fix message assume "e = ChatModelError message"
  with assms show "fst (chat up config request) = Inl (HTTPException 500 message)"
    by (simp add: chat_def Let_def)
next
  assume n: "\<forall>message. e \<noteq> ChatModelError message"
  with assms show u: "chat up config request = (Inl (Uncaught e), received request # es)"
    by (cases e) (simp_all add: chat_def)
  from chat_try_raises[OF assms] n have "filter is_error_log es = []" by blast
  with u show "filter is_error_log (snd (chat up config request)) = []"
    by (simp add: received_def)
qed

theorem handler_catches_only_ChatModelError_witness:
  "chat_try (stub_no_client (Exception ''OpenAIError'' ''The api_key client option must be set''))
        example_config (hi_request None)
     = (Inl (Exception ''OpenAIError'' ''The api_key client option must be set''), [])
   \<and> chat (stub_no_client (Exception ''OpenAIError'' ''The api_key client option must be set''))
        example_config (hi_request None)
     = (Inl (Uncaught (Exception ''OpenAIError'' ''The api_key client option must be set'')),
        [received (hi_request None)])
   \<and> fst (chat_try (stub_raising (ChatModelError ''quota'')) example_config (hi_request None))
       = Inl (ChatModelError ''Error chatting with model: quota'')
   \<and> fst (chat (stub_raising (ChatModelError ''quota'')) example_config (hi_request None))
       = Inl (HTTPException 500 ''Error chatting with model: quota'')"
  using handler_catches_only_ChatModelError [of
          "stub_no_client (Exception ''OpenAIError'' ''The api_key client option must be set'')"
          example_config "hi_request None"
          "Exception ''OpenAIError'' ''The api_key client option must be set''" "[]"]
        handler_catches_only_ChatModelError [of
          "stub_raising (ChatModelError ''quota'')" example_config "hi_request None"
          "ChatModelError ''Error chatting with model: quota''"
          "snd (chat_try (stub_raising (ChatModelError ''quota'')) example_config
                  (hi_request None))"]
  by (simp add: chat_try_def ChatModelService_init_def ChatModelService_chat_def Let_def
        stub_no_client_def stub_raising_def example_config_def hi_request_def)

end
